theory Spec2Isabelle
  imports Main "HOL-Library.Word"
begin

section \<open>Strings, bytes and errors\<close>

text \<open>
  A Go \<open>string\<close> is a sequence of bytes, which is what \<^typ>\<open>string\<close> is here. File
  contents are lists of bytes. A Go \<open>error\<close> is modelled by its message (what
  \<open>err.Error()\<close> and the verb \<open>%v\<close> print); \<open>nil\<close> is \<^const>\<open>None\<close>.
\<close>

type_synonym byte = "8 word"
type_synonym int64 = "64 word"
type_synonym error = "string option"

subsection \<open>\<open>strings.ToLower\<close>\<close>

text \<open>
  \<open>strings.ToLower\<close> scans the bytes of its argument. When every byte is below
  \<open>utf8.RuneSelf\<close> (0x80) it adds \<open>'a' - 'A'\<close> to each byte in \<open>'A'..'Z'\<close> and leaves
  the others alone. Otherwise it returns \<open>Map(unicode.ToLower, s)\<close>, which depends on
  the Unicode tables of the Go runtime: that branch is the parameter \<open>unicodeLower\<close>.
\<close>

definition RuneSelf :: nat where
  "RuneSelf = 128"

definition isUpperASCII :: "char \<Rightarrow> bool" where
  "isUpperASCII c =
     ((of_char (CHR ''A'') :: nat) \<le> of_char c \<and> (of_char c :: nat) \<le> of_char (CHR ''Z''))"

definition lowerASCII :: "char \<Rightarrow> char" where
  "lowerASCII c =
     (if isUpperASCII c
      then char_of ((of_char c :: nat) + (of_char (CHR ''a'') - of_char (CHR ''A'')))
      else c)"

definition isASCII :: "string \<Rightarrow> bool" where
  "isASCII s = list_all (\<lambda>c. (of_char c :: nat) < RuneSelf) s"

definition ToLower :: "(string \<Rightarrow> string) \<Rightarrow> string \<Rightarrow> string" where
  "ToLower unicodeLower s = (if isASCII s then map lowerASCII s else unicodeLower s)"

subsection \<open>The Unicode branch: \<open>strings.Map(unicode.ToLower, s)\<close>\<close>

text \<open>
  \<open>strings.Map\<close> reads the string rune by rune as UTF-8, applies the mapping to each
  rune and writes the results as UTF-8. A byte that starts no valid encoding is read
  as \<open>utf8.RuneError\<close> (U+FFFD) of width 1. Bytes and runes are natural numbers here, and
  the masks and shifts of the Go code are written with \<open>div\<close> and \<open>mod\<close>.
\<close>

definition RuneError :: nat where
  "RuneError = 65533"

definition MaxASCII :: nat where
  "MaxASCII = 127"

text \<open>
  \<open>DecodeRune\<close> returns the first rune of a byte sequence and its width, as
  \<open>utf8.DecodeRuneInString\<close> does: one byte below 0x80; two bytes from 0xC2..0xDF;
  three from 0xE0..0xEF; four from 0xF0..0xF4; the second byte in the range that the
  first allows, the later ones in 0x80..0xBF.
\<close>

definition DecodeRune :: "nat list \<Rightarrow> nat \<times> nat" where
  "DecodeRune p =
     (case p of
        [] \<Rightarrow> (RuneError, 0)
      | b0 # bs \<Rightarrow>
          if b0 < 128 then (b0, 1)
          else if 194 \<le> b0 \<and> b0 \<le> 223 then
            (case bs of
               b1 # bs1 \<Rightarrow>
                 if 128 \<le> b1 \<and> b1 \<le> 191 then ((b0 mod 32) * 64 + b1 mod 64, 2)
                 else (RuneError, 1)
             | [] \<Rightarrow> (RuneError, 1))
          else if 224 \<le> b0 \<and> b0 \<le> 239 then
            (case bs of
               b1 # b2 # bs2 \<Rightarrow>
                 if (if b0 = 224 then 160 else 128) \<le> b1 \<and>
                    b1 \<le> (if b0 = 237 then 159 else 191) \<and> 128 \<le> b2 \<and> b2 \<le> 191
                 then ((b0 mod 16) * 4096 + (b1 mod 64) * 64 + b2 mod 64, 3)
                 else (RuneError, 1)
             | _ \<Rightarrow> (RuneError, 1))
          else if 240 \<le> b0 \<and> b0 \<le> 244 then
            (case bs of
               b1 # b2 # b3 # bs3 \<Rightarrow>
                 if (if b0 = 240 then 144 else 128) \<le> b1 \<and>
                    b1 \<le> (if b0 = 244 then 143 else 191) \<and> 128 \<le> b2 \<and> b2 \<le> 191 \<and>
                    128 \<le> b3 \<and> b3 \<le> 191
                 then ((b0 mod 8) * 262144 + (b1 mod 64) * 4096 + (b2 mod 64) * 64 + b3 mod 64, 4)
                 else (RuneError, 1)
             | _ \<Rightarrow> (RuneError, 1))
          else (RuneError, 1))"

text \<open>\<open>runes\<close> is the loop \<open>for _, c := range s\<close>: the runes of a string, in order.\<close>

fun runes :: "nat list \<Rightarrow> nat list" where
  "runes [] = []"
| "runes (b # bs) = (case DecodeRune (b # bs) of (r, width) \<Rightarrow> r # runes (drop (width - 1) bs))"

text \<open>
  \<open>EncodeRune\<close> is \<open>utf8.AppendRune\<close>: one to four bytes; a surrogate or a rune above
  U+10FFFF is written as U+FFFD.
\<close>

definition EncodeRune :: "nat \<Rightarrow> nat list" where
  "EncodeRune r =
     (if r \<le> 127 then [r]
      else if r \<le> 2047 then [192 + r div 64, 128 + r mod 64]
      else if 1114111 < r \<or> (55296 \<le> r \<and> r \<le> 57343) then [239, 191, 189]
      else if r \<le> 65535 then [224 + r div 4096, 128 + r div 64 mod 64, 128 + r mod 64]
      else [240 + r div 262144, 128 + r div 4096 mod 64, 128 + r div 64 mod 64, 128 + r mod 64])"

text \<open>
  \<open>unicode.ToLower\<close> maps an ASCII rune as \<^const>\<open>lowerASCII\<close> does and looks every other
  rune up in the case tables of the Go runtime (\<open>unicode.CaseRanges\<close>), which are the
  parameter \<open>caseTable\<close>.
\<close>

definition unicode_ToLower :: "(nat \<Rightarrow> nat) \<Rightarrow> nat \<Rightarrow> nat" where
  "unicode_ToLower caseTable r =
     (if r \<le> MaxASCII
      then (if of_char (CHR ''A'') \<le> r \<and> r \<le> of_char (CHR ''Z'')
            then r + (of_char (CHR ''a'') - of_char (CHR ''A'')) else r)
      else caseTable r)"

definition Map_unicode_ToLower :: "(nat \<Rightarrow> nat) \<Rightarrow> string \<Rightarrow> string" where
  "Map_unicode_ToLower caseTable s =
     map char_of
       (concat (map (\<lambda>c. EncodeRune (unicode_ToLower caseTable c)) (runes (map of_char s))))"

subsection \<open>\<open>filepath.Ext\<close>\<close>

text \<open>
  \<open>filepath.Ext\<close> walks the path from its last byte towards the first, stops at a
  path separator (\<open>'/'\<close>, as on Unix) with the empty string, and returns the suffix that starts at
  the first dot it meets. \<open>ext_scan\<close> is that loop: its first argument holds the bytes
  not yet visited, last byte first, and its second the bytes already passed.
\<close>

fun ext_scan :: "string \<Rightarrow> string \<Rightarrow> string" where
  "ext_scan [] suffix = []"
| "ext_scan (c # front) suffix =
     (if c = CHR ''/'' then []
      else if c = CHR ''.'' then c # suffix
      else ext_scan front (c # suffix))"

definition Ext :: "string \<Rightarrow> string" where
  "Ext path = ext_scan (rev path) []"

section \<open>The handler's data (handlers/upload.go, storage/gcs.go)\<close>

record UploadResult =
  FileName :: string
  URL :: string
  Size :: int64

record Response =
  Success :: bool
  Data :: "UploadResult option"
  Error :: string

text \<open>
  \<open>multipart.FileHeader\<close>: the file name and the size (an \<open>int64\<close>, read as a signed
  number with \<^const>\<open>sint\<close>) that the multipart parser reports for the part.
\<close>

record FileHeader =
  Filename :: string
  header_Size :: int64

text \<open>
  An \<open>io.Reader\<close> over a finite stream: the results of the successive calls of
  \<open>Read\<close>, each the bytes delivered and the error returned with them (\<open>nil\<close>,
  \<open>io.EOF\<close> or a read error). After the last listed call \<open>Read\<close> returns
  \<open>(0, io.EOF)\<close>.
\<close>

datatype read_error = EOF | ReadError string

type_synonym File = "(byte list \<times> read_error option) list"

fun stream_bytes :: "File \<Rightarrow> byte list" where
  "stream_bytes [] = []"
| "stream_bytes ((buf, er) # rest) =
     buf @ (case er of None \<Rightarrow> stream_bytes rest | Some e \<Rightarrow> [])"

text \<open>
  An \<open>http.Request\<close>, as far as the handler reads it: the method, the error of
  \<open>ParseMultipartForm\<close>, and what \<open>FormFile\<close> returns for a field name (\<^const>\<open>None\<close>
  when it returns an error).
\<close>

record Request =
  Method :: string
  ParseMultipartForm :: error
  FormFile :: "string \<Rightarrow> (File \<times> FileHeader) option"

text \<open>
  An \<open>http.ResponseWriter\<close>: the header map, the status code (\<^const>\<open>None\<close> until
  it is written) and the envelopes encoded into the body, in order.
\<close>

record ResponseWriter =
  Header :: "string \<rightharpoonup> string"
  Code :: "nat option"
  Body :: "Response list"

definition NewRecorder :: ResponseWriter where
  "NewRecorder = \<lparr>Header = Map.empty, Code = None, Body = []\<rparr>"

definition Header_Set :: "ResponseWriter \<Rightarrow> string \<Rightarrow> string \<Rightarrow> ResponseWriter" where
  "Header_Set w k v = w\<lparr>Header := (Header w)(k \<mapsto> v)\<rparr>"

text \<open>Only the first \<open>WriteHeader\<close> counts; a write to the body sends status 200 if
  none was sent.\<close>

definition WriteHeader :: "ResponseWriter \<Rightarrow> nat \<Rightarrow> ResponseWriter" where
  "WriteHeader w statusCode = (if Code w = None then w\<lparr>Code := Some statusCode\<rparr> else w)"

definition StatusOK :: nat where "StatusOK = 200"
definition StatusBadRequest :: nat where "StatusBadRequest = 400"
definition StatusMethodNotAllowed :: nat where "StatusMethodNotAllowed = 405"
definition StatusInternalServerError :: nat where "StatusInternalServerError = 500"

definition MethodOptions :: string where "MethodOptions = ''OPTIONS''"
definition MethodPost :: string where "MethodPost = ''POST''"

definition Encode :: "ResponseWriter \<Rightarrow> Response \<Rightarrow> ResponseWriter" where
  "Encode w response = (let w1 = WriteHeader w StatusOK in w1\<lparr>Body := Body w1 @ [response]\<rparr>)"

definition sendSuccessResponse :: "ResponseWriter \<Rightarrow> UploadResult option \<Rightarrow> ResponseWriter" where
  "sendSuccessResponse w data =
     (let w1 = Header_Set w ''Content-Type'' ''application/json'';
          response = \<lparr>Success = True, Data = data, Error = []\<rparr>
      in Encode w1 response)"

definition sendErrorResponse :: "ResponseWriter \<Rightarrow> string \<Rightarrow> nat \<Rightarrow> ResponseWriter" where
  "sendErrorResponse w message statusCode =
     (let w1 = Header_Set w ''Content-Type'' ''application/json'';
          w2 = WriteHeader w1 statusCode;
          response = \<lparr>Success = False, Data = None, Error = message\<rparr>
      in Encode w2 response)"

section \<open>The validator and the handler\<close>

definition allowedExtensions :: "string list" where
  "allowedExtensions =
     [''.pdf'', ''.doc'', ''.docx'', ''.txt'', ''.rtf'',
      ''.jpg'', ''.jpeg'', ''.png'', ''.gif'', ''.bmp'',
      ''.zip'', ''.rar'', ''.tar'', ''.gz'',
      ''.csv'', ''.xls'', ''.xlsx'',
      ''.ppt'', ''.pptx'']"

fun range_allowed :: "string \<Rightarrow> string list \<Rightarrow> bool" where
  "range_allowed ext [] = False"
| "range_allowed ext (allowed # others) = (if ext = allowed then True else range_allowed ext others)"

definition isAllowedFileType :: "(string \<Rightarrow> string) \<Rightarrow> string \<Rightarrow> bool" where
  "isAllowedFileType unicodeLower filename =
     (let ext = ToLower unicodeLower (Ext filename) in range_allowed ext allowedExtensions)"

text \<open>
  The handler holds a \<open>StorageClient\<close>; of that interface it calls \<open>UploadFile\<close>, which
  returns a pair of a result pointer and an error, each of which may be \<open>nil\<close>. A call
  acts on what lies behind the interface (a bucket, a counter of a test double): it
  takes the state \<open>'b\<close> of that backend and returns the state it leaves.
\<close>

record 'b UploadHandler =
  storageClient :: "string \<Rightarrow> File \<Rightarrow> 'b \<Rightarrow> (UploadResult option \<times> error) \<times> 'b"

definition maxSize :: int64 where
  "maxSize = push_bit 20 100"

text \<open>
  \<open>HandleUpload\<close> takes the state of the backend when the request arrives, and
  returns the response writer and the state of the backend as the handler leaves them.
  The request context passed to \<open>UploadFile\<close> and the deferred \<open>file.Close()\<close> do not
  change either and are left out.
\<close>

definition HandleUpload ::
  "(string \<Rightarrow> string) \<Rightarrow> 'b UploadHandler \<Rightarrow> ResponseWriter \<Rightarrow> Request \<Rightarrow> 'b
     \<Rightarrow> ResponseWriter \<times> 'b" where
  "HandleUpload unicodeLower h w0 r b =
     (let w1 = Header_Set w0 ''Access-Control-Allow-Origin'' ''*'';
          w2 = Header_Set w1 ''Access-Control-Allow-Methods'' ''POST, OPTIONS'';
          w = Header_Set w2 ''Access-Control-Allow-Headers'' ''Content-Type''
      in if Method r = MethodOptions then (WriteHeader w StatusOK, b)
         else if Method r \<noteq> MethodPost
         then (sendErrorResponse w ''Method not allowed'' StatusMethodNotAllowed, b)
         else (case ParseMultipartForm r of
             Some err \<Rightarrow>
               (sendErrorResponse w ''Failed to parse multipart form'' StatusBadRequest, b)
           | None \<Rightarrow>
             (case FormFile r ''file'' of
               None \<Rightarrow>
                 (sendErrorResponse w ''No file provided or invalid file field''
                    StatusBadRequest, b)
             | Some (file, header) \<Rightarrow>
                 if header_Size header = 0
                 then (sendErrorResponse w ''Empty file not allowed'' StatusBadRequest, b)
                 else if sint maxSize < sint (header_Size header)
                 then (sendErrorResponse w ''File too large (max 100MB)'' StatusBadRequest, b)
                 else (let filename = Filename header in
                   if \<not> isAllowedFileType unicodeLower filename
                   then (sendErrorResponse w ''File type not allowed'' StatusBadRequest, b)
                   else (case storageClient h filename file b of
                       ((result, Some err), b') \<Rightarrow>
                         (sendErrorResponse w (''Upload failed: '' @ err)
                            StatusInternalServerError, b')
                     | ((result, None), b') \<Rightarrow>
                         (sendSuccessResponse w result, b'))))))"

section \<open>The storage client (storage/gcs.go)\<close>

subsection \<open>The timestamp: \<open>time.Now().Format("20060102-150405")\<close>\<close>

text \<open>
  The wall clock as \<open>Format\<close> reads it: the calendar fields of the local time, to the
  second.
\<close>

record Time =
  Year :: int
  Month :: int
  Day :: int
  Hour :: int
  Minute :: int
  Second :: int

text \<open>\<open>utod\<close> is \<open>'0' + u\<close>; \<open>decimal\<close> writes the decimal digits of a number, the
  most significant first.\<close>

definition utod :: "nat \<Rightarrow> char" where
  "utod u = char_of ((of_char (CHR ''0'') :: nat) + u)"

fun decimal :: "nat \<Rightarrow> string" where
  "decimal u = (if u < 10 then [utod u] else decimal (u div 10) @ [utod (u mod 10)])"

declare decimal.simps [simp del]

text \<open>
  \<open>appendInt\<close> writes a minus sign for a negative number, then the decimal digits of
  its absolute value, padded with zeros on the left up to the width.
\<close>

definition appendInt :: "int \<Rightarrow> nat \<Rightarrow> string" where
  "appendInt x width =
     (let u = nat \<bar>x\<bar>;
          ds = decimal u
      in (if x < 0 then ''-'' else []) @ replicate (width - length ds) (CHR ''0'') @ ds)"

text \<open>
  The layout \<open>"20060102-150405"\<close> is the year in four digits, the month, the day,
  a hyphen, the hour, the minute and the second, each in two digits.
\<close>

definition Format :: "Time \<Rightarrow> string" where
  "Format t =
     appendInt (Year t) 4 @ appendInt (Month t) 2 @ appendInt (Day t) 2 @ ''-'' @
     appendInt (Hour t) 2 @ appendInt (Minute t) 2 @ appendInt (Second t) 2"

subsection \<open>\<open>io.Copy\<close>\<close>

text \<open>
  The writer is a state \<open>'ws\<close> with \<open>Write\<close>, which returns the number of bytes it
  took and an error. \<open>copy_write\<close> is the part of the loop body of \<open>io.Copy\<close> that
  calls \<open>Write\<close> and repairs an impossible count.
\<close>

definition errInvalidWrite :: string where
  "errInvalidWrite = ''invalid write result''"

definition ErrShortWrite :: string where
  "ErrShortWrite = ''short write''"

definition copy_write ::
  "('ws \<Rightarrow> byte list \<Rightarrow> (int \<times> error) \<times> 'ws) \<Rightarrow> 'ws \<Rightarrow> byte list \<Rightarrow> (int \<times> error) \<times> 'ws" where
  "copy_write wr ws buf =
     (case wr ws buf of
        ((nw, ew), ws') \<Rightarrow>
          if nw < 0 \<or> int (length buf) < nw
          then ((0, (case ew of None \<Rightarrow> Some errInvalidWrite | Some e \<Rightarrow> Some e)), ws')
          else ((nw, ew), ws'))"

definition read_result :: "read_error option \<Rightarrow> error option" where
  "read_result er =
     (case er of
        None \<Rightarrow> None
      | Some EOF \<Rightarrow> Some None
      | Some (ReadError e) \<Rightarrow> Some (Some e))"

text \<open>
  \<open>io_Copy\<close> is the read and write loop of \<open>io.Copy\<close> (the one it runs when the
  reader has no \<open>WriteTo\<close> and the writer no \<open>ReadFrom\<close>), from the count written so far: it returns
  the count, the first error met (\<open>io.EOF\<close> is not an error) and the writer's state.
  \<^const>\<open>read_result\<close> tells whether the loop stops after a read, and with which error.
\<close>

fun io_Copy ::
  "('ws \<Rightarrow> byte list \<Rightarrow> (int \<times> error) \<times> 'ws) \<Rightarrow> 'ws \<Rightarrow> File \<Rightarrow> int64
     \<Rightarrow> (int64 \<times> error) \<times> 'ws" where
  "io_Copy wr ws [] written = ((written, None), ws)"
| "io_Copy wr ws ((buf, er) # rest) written =
     (if 0 < length buf
      then (case copy_write wr ws buf of
          ((nw, ew), ws') \<Rightarrow>
            (let written' = written + of_int nw in
             case ew of
               Some e \<Rightarrow> ((written', Some e), ws')
             | None \<Rightarrow>
                 if int (length buf) \<noteq> nw then ((written', Some ErrShortWrite), ws')
                 else (case read_result er of
                     None \<Rightarrow> io_Copy wr ws' rest written'
                   | Some err \<Rightarrow> ((written', err), ws'))))
      else (case read_result er of
          None \<Rightarrow> io_Copy wr ws rest written
        | Some err \<Rightarrow> ((written, err), ws)))"

subsection \<open>\<open>UploadFile\<close>\<close>

text \<open>
  What the code uses of the storage SDK: \<open>NewWriter\<close> for a bucket and an object
  name, and the writer's \<open>Write\<close> and \<open>Close\<close>.
\<close>

record 'ws sdk =
  NewWriter :: "string \<Rightarrow> string \<Rightarrow> 'ws"
  Write :: "'ws \<Rightarrow> byte list \<Rightarrow> (int \<times> error) \<times> 'ws"
  Close :: "'ws \<Rightarrow> error \<times> 'ws"

record 'ws Client =
  client :: "'ws sdk"
  bucketName :: string

text \<open>
  \<open>UploadFile\<close> takes the reading of the clock that \<open>time.Now()\<close> returns. Its first
  component is what the Go function returns. \<open>writer.Close()\<close> is deferred and its
  return value is dropped: the second component keeps that value and the writer's last
  state, which the caller never sees.
\<close>

definition UploadFile ::
  "'ws Client \<Rightarrow> Time \<Rightarrow> string \<Rightarrow> File \<Rightarrow> (UploadResult option \<times> error) \<times> (error \<times> 'ws)" where
  "UploadFile c now fileName reader =
     (let timestamp = Format now;
          objectName = timestamp @ ''-'' @ fileName;
          writer = NewWriter (client c) (bucketName c) objectName
      in case io_Copy (Write (client c)) writer reader 0 of
           ((sz, err), writer') \<Rightarrow>
             (let deferred = Close (client c) writer' in
              case err of
                Some e \<Rightarrow> ((None, Some (''failed to upload file: '' @ e)), deferred)
              | None \<Rightarrow>
                  (let url = ''https://storage.googleapis.com/'' @ bucketName c @ ''/'' @ objectName
                   in ((Some \<lparr>FileName = objectName, URL = url, Size = sz\<rparr>, None), deferred))))"

text \<open>
  The handler that \<open>main\<close> builds: \<open>NewUploadHandler\<close> over the client, at one
  reading of the clock. The backend of this client is the storage service: its state
  is the writers that were closed, oldest first, each as \<open>Close\<close> left it and with what
  \<open>Close\<close> returned.
\<close>

definition NewUploadHandler :: "'ws Client \<Rightarrow> Time \<Rightarrow> ((error \<times> 'ws) list) UploadHandler" where
  "NewUploadHandler c now =
     \<lparr>storageClient = (\<lambda>fileName reader closed.
        case UploadFile c now fileName reader of
          (returned, deferred) \<Rightarrow> (returned, closed @ [deferred]))\<rparr>"

section \<open>Notions the properties are stated with\<close>


text \<open>
  A run of the handler rejects with a message and a status when it sends that status
  and a single error envelope with that message.
\<close>

definition rejects_with :: "ResponseWriter \<times> 'b \<Rightarrow> string \<Rightarrow> nat \<Rightarrow> bool" where
  "rejects_with res message statusCode =
     (Code (fst res) = Some statusCode \<and>
      Body (fst res) = [\<lparr>Success = False, Data = None, Error = message\<rparr>])"

text \<open>
  The calendar fields of a Go \<open>Time\<close> lie in these ranges (the year is not bounded).
\<close>

definition valid_clock :: "Time \<Rightarrow> bool" where
  "valid_clock t =
     (1 \<le> Month t \<and> Month t \<le> 12 \<and> 1 \<le> Day t \<and> Day t \<le> 31 \<and>
      0 \<le> Hour t \<and> Hour t \<le> 23 \<and> 0 \<le> Minute t \<and> Minute t \<le> 59 \<and>
      0 \<le> Second t \<and> Second t \<le> 59)"

text \<open>
  The pattern \<open>YYYYMMDD-HHMMSS\<close>, written out digit by digit: four digits of the
  year, two each of the month and the day, a hyphen, two each of the hour, the minute
  and the second.
\<close>

definition two_digits :: "nat \<Rightarrow> string" where
  "two_digits n = [utod (n div 10), utod (n mod 10)]"

definition four_digits :: "nat \<Rightarrow> string" where
  "four_digits n =
     [utod (n div 1000), utod (n div 100 mod 10), utod (n div 10 mod 10), utod (n mod 10)]"

definition YYYYMMDD_HHMMSS :: "Time \<Rightarrow> string" where
  "YYYYMMDD_HHMMSS t =
     four_digits (nat (Year t)) @ two_digits (nat (Month t)) @ two_digits (nat (Day t)) @ ''-'' @
     two_digits (nat (Hour t)) @ two_digits (nat (Minute t)) @ two_digits (nat (Second t))"

text \<open>The number that a string of decimal digits denotes.\<close>

definition digits_value :: "string \<Rightarrow> nat" where
  "digits_value s = foldl (\<lambda>a c. 10 * a + ((of_char c :: nat) - of_char (CHR ''0''))) 0 s"

text \<open>
  What \<open>io.Copy\<close> hands to the writer: the chunks that the reads deliver, without the
  empty ones, up to the first read that returns an error or the end of the file.
  \<open>all_written\<close> says that \<open>Write\<close>, called on these chunks in turn from a writer
  state, returns each time the length of the chunk and no error; \<open>after_writes\<close> is the
  state of the writer after these calls.
\<close>

fun chunks_read :: "File \<Rightarrow> byte list list" where
  "chunks_read [] = []"
| "chunks_read ((buf, er) # rest) =
     (if buf = [] then [] else [buf]) @ (case er of None \<Rightarrow> chunks_read rest | Some e \<Rightarrow> [])"

fun all_written ::
  "('ws \<Rightarrow> byte list \<Rightarrow> (int \<times> error) \<times> 'ws) \<Rightarrow> 'ws \<Rightarrow> byte list list \<Rightarrow> bool" where
  "all_written wr ws [] = True"
| "all_written wr ws (buf # bufs) =
     (fst (wr ws buf) = (int (length buf), None) \<and> all_written wr (snd (wr ws buf)) bufs)"

fun after_writes ::
  "('ws \<Rightarrow> byte list \<Rightarrow> (int \<times> error) \<times> 'ws) \<Rightarrow> 'ws \<Rightarrow> byte list list \<Rightarrow> 'ws" where
  "after_writes wr ws [] = ws"
| "after_writes wr ws (buf # bufs) = after_writes wr (snd (wr ws buf)) bufs"

section \<open>Concrete requests, clients and clocks\<close>

text \<open>
  A POST request whose multipart body parses and carries one field \<open>file\<close>, with a
  file name, a declared size and a content.
\<close>

definition post_file :: "string \<Rightarrow> int64 \<Rightarrow> File \<Rightarrow> Request" where
  "post_file name declared content =
     \<lparr>Method = ''POST'', ParseMultipartForm = None,
      FormFile = (\<lambda>field. if field = ''file''
                   then Some (content, \<lparr>Filename = name, header_Size = declared\<rparr>) else None)\<rparr>"

text \<open>A request with no body, as the tests build for \<open>GET\<close> and \<open>OPTIONS\<close>.\<close>

definition bare_request :: "string \<Rightarrow> Request" where
  "bare_request method =
     \<lparr>Method = method,
      ParseMultipartForm = Some ''request Content-Type isn't multipart/form-data'',
      FormFile = (\<lambda>field. None)\<rparr>"

text \<open>
  \<open>MockStorageClient\<close> of handlers/upload_test.go, over a backend that counts the
  calls of \<open>UploadFile\<close>.
\<close>

definition MockStorageClient :: "bool \<Rightarrow> nat UploadHandler" where
  "MockStorageClient shouldFail =
     \<lparr>storageClient = (\<lambda>fileName reader calls.
        if shouldFail then ((None, Some ''invalid argument''), Suc calls)
        else ((Some \<lparr>FileName = ''test-file.txt'',
                     URL = ''https://storage.googleapis.com/test-bucket/test-file.txt'',
                     Size = 100\<rparr>, None), Suc calls))\<rparr>"

text \<open>The 13 bytes of \<open>Hello, World!\<close>, delivered by two reads and an end of file.\<close>

definition hello_world :: File where
  "hello_world =
     [([72, 101, 108, 108, 111, 44, 32], None), ([87, 111, 114, 108, 100, 33], None),
      ([], Some EOF)]"

text \<open>
  Two behaviours of the storage SDK. Both writers buffer the bytes they are given and
  report every \<open>Write\<close> as complete. \<open>stored_sdk\<close> stores the object when the writer
  is closed; \<open>forbidden_sdk\<close> has the upload refused at that point, which \<open>Close\<close>
  reports.
\<close>

definition stored_sdk :: "(byte list) sdk" where
  "stored_sdk =
     \<lparr>NewWriter = (\<lambda>bucket object. []),
      Write = (\<lambda>ws buf. ((int (length buf), None), ws @ buf)),
      Close = (\<lambda>ws. (None, ws))\<rparr>"

definition forbidden_sdk :: "(byte list) sdk" where
  "forbidden_sdk =
     \<lparr>NewWriter = (\<lambda>bucket object. []),
      Write = (\<lambda>ws buf. ((int (length buf), None), ws @ buf)),
      Close = (\<lambda>ws. (Some ''googleapi: Error 403: Forbidden'', []))\<rparr>"

text \<open>A client of each behaviour, on the bucket \<open>docs\<close>.\<close>

definition docs :: "(byte list) Client" where
  "docs = \<lparr>client = stored_sdk, bucketName = ''docs''\<rparr>"

definition forbidden_docs :: "(byte list) Client" where
  "forbidden_docs = \<lparr>client = forbidden_sdk, bucketName = ''docs''\<rparr>"


text \<open>The name \<open>x.g\<close>, U+0130 in UTF-8 (0xC4 0xB0), \<open>f\<close>.\<close>

definition x_gIf :: string where
  "x_gIf = ''x.g'' @ [CHR 0xC4, CHR 0xB0] @ ''f''"

definition clock_184900 :: Time where
  "clock_184900 = \<lparr>Year = 2026, Month = 11, Day = 1, Hour = 18, Minute = 49, Second = 0\<rparr>"

definition clock_184901 :: Time where
  "clock_184901 = \<lparr>Year = 2026, Month = 11, Day = 1, Hour = 18, Minute = 49, Second = 1\<rparr>"

section \<open>Properties of the validator\<close>

lemma range_allowed_iff: "range_allowed ext xs \<longleftrightarrow> ext \<in> set xs"
  by (induction xs) auto





lemma isAllowedFileType_iff:
  "isAllowedFileType L f \<longleftrightarrow> ToLower L (Ext f) \<in> set allowedExtensions"
  by (simp add: isAllowedFileType_def range_allowed_iff)



lemma maxSize_sint: "sint maxSize = 100 * 1024 * 1024"
  by (simp add: maxSize_def)



lemma runes_x_gIf: "runes (map of_char (Ext x_gIf)) = [46, 103, 304, 102]"
  by code_simp

lemma not_ascii_x_gIf: "\<not> isASCII (Ext x_gIf)"
  by code_simp

lemma chars_gif: "map char_of [46, 103, 105, 102 :: nat] = ''.gif''"
  by code_simp

lemma dotted_I_lower:
  "caseTable 304 = 105 \<Longrightarrow> ToLower (Map_unicode_ToLower caseTable) (Ext x_gIf) = ''.gif''"
  using chars_gif
  by (simp add: ToLower_def not_ascii_x_gIf Map_unicode_ToLower_def runes_x_gIf
      unicode_ToLower_def MaxASCII_def EncodeRune_def)

lemma dotted_I_accepted:
  "caseTable 304 = 105 \<Longrightarrow> isAllowedFileType (Map_unicode_ToLower caseTable) x_gIf"
  by (simp add: isAllowedFileType_iff dotted_I_lower allowedExtensions_def)




section \<open>Properties of the handler\<close>

lemmas handler_defs =
  HandleUpload_def Let_def sendErrorResponse_def sendSuccessResponse_def Encode_def
  WriteHeader_def Header_Set_def NewRecorder_def StatusOK_def StatusBadRequest_def
  StatusMethodNotAllowed_def StatusInternalServerError_def MethodOptions_def MethodPost_def

text \<open>The state of the backend, the status and the body that the handler leaves, each
  as a function of the request.\<close>

lemma backend_eq:
  "snd (HandleUpload L h w r b) =
     (if Method r = ''OPTIONS'' \<or> Method r \<noteq> ''POST'' then b
      else case ParseMultipartForm r of
          Some e \<Rightarrow> b
        | None \<Rightarrow>
          (case FormFile r ''file'' of
             None \<Rightarrow> b
           | Some (file, header) \<Rightarrow>
               if header_Size header = 0 \<or> 100 * 1024 * 1024 < sint (header_Size header) \<or>
                  \<not> isAllowedFileType L (Filename header)
               then b else snd (storageClient h (Filename header) file b)))"
  by (simp add: HandleUpload_def Let_def MethodOptions_def MethodPost_def maxSize_sint
      split: option.split prod.split)

lemma Code_eq:
  "Code (fst (HandleUpload L h NewRecorder r b)) =
     (if Method r = ''OPTIONS'' then Some 200
      else if Method r \<noteq> ''POST'' then Some 405
      else case ParseMultipartForm r of
          Some e \<Rightarrow> Some 400
        | None \<Rightarrow>
          (case FormFile r ''file'' of
             None \<Rightarrow> Some 400
           | Some (file, header) \<Rightarrow>
               if header_Size header = 0 \<or> 100 * 1024 * 1024 < sint (header_Size header) \<or>
                  \<not> isAllowedFileType L (Filename header)
               then Some 400
               else (case snd (fst (storageClient h (Filename header) file b)) of
                   Some err \<Rightarrow> Some 500 | None \<Rightarrow> Some 200)))"
  by (simp add: handler_defs maxSize_sint split: option.split prod.split)

lemma Body_eq:
  "Body (fst (HandleUpload L h NewRecorder r b)) =
     (if Method r = ''OPTIONS'' then []
      else if Method r \<noteq> ''POST''
      then [\<lparr>Success = False, Data = None, Error = ''Method not allowed''\<rparr>]
      else case ParseMultipartForm r of
          Some e \<Rightarrow> [\<lparr>Success = False, Data = None, Error = ''Failed to parse multipart form''\<rparr>]
        | None \<Rightarrow>
          (case FormFile r ''file'' of
             None \<Rightarrow>
               [\<lparr>Success = False, Data = None, Error = ''No file provided or invalid file field''\<rparr>]
           | Some (file, header) \<Rightarrow>
               if header_Size header = 0
               then [\<lparr>Success = False, Data = None, Error = ''Empty file not allowed''\<rparr>]
               else if 100 * 1024 * 1024 < sint (header_Size header)
               then [\<lparr>Success = False, Data = None, Error = ''File too large (max 100MB)''\<rparr>]
               else if \<not> isAllowedFileType L (Filename header)
               then [\<lparr>Success = False, Data = None, Error = ''File type not allowed''\<rparr>]
               else (case snd (fst (storageClient h (Filename header) file b)) of
                   Some err \<Rightarrow> [\<lparr>Success = False, Data = None, Error = ''Upload failed: '' @ err\<rparr>]
                 | None \<Rightarrow>
                     [\<lparr>Success = True, Data = fst (fst (storageClient h (Filename header) file b)),
                       Error = []\<rparr>])))"
  by (simp add: handler_defs maxSize_sint split: option.split prod.split)

text \<open>When the handler does not reach the upload, its whole result is the same for
  every storage client.\<close>

lemma rejected_any_client:
  assumes "Method r \<noteq> ''POST'' \<or> ParseMultipartForm r \<noteq> None \<or> FormFile r ''file'' = None \<or>
    (\<exists>file header. FormFile r ''file'' = Some (file, header) \<and>
       (header_Size header = 0 \<or> 100 * 1024 * 1024 < sint (header_Size header) \<or>
        \<not> isAllowedFileType L (Filename header)))"
  shows "HandleUpload L h w r b = HandleUpload L h' w r b"
  using assms
  by (elim disjE exE conjE)
    (auto simp: HandleUpload_def Let_def MethodOptions_def MethodPost_def maxSize_sint
      split: option.split)

lemma post_file_simps:
  "Method (post_file n d c) = ''POST''" "ParseMultipartForm (post_file n d c) = None"
  "FormFile (post_file n d c) ''file'' = Some (c, \<lparr>Filename = n, header_Size = d\<rparr>)"
  by (simp_all add: post_file_def)

lemma bare_request_simps:
  "Method (bare_request m) = m"
  "ParseMultipartForm (bare_request m) = Some ''request Content-Type isn't multipart/form-data''"
  "FormFile (bare_request m) field = None"
  by (simp_all add: bare_request_def)

lemma allowed_test_txt: "isAllowedFileType (\<lambda>s. s) ''test.txt''"
  by code_simp

lemma not_allowed_malware_exe: "\<not> isAllowedFileType (\<lambda>s. s) ''malware.exe''"
  by code_simp

lemma MockStorageClient_simps:
  "snd (storageClient (MockStorageClient sf) f rd n) = Suc n"
  "snd (fst (storageClient (MockStorageClient False) f rd n)) = None"
  "snd (fst (storageClient (MockStorageClient True) f rd n)) = Some ''invalid argument''"
  by (simp_all add: MockStorageClient_def)

text \<open>
  Claim C1. For a POST request whose form parses and has a field \<open>file\<close>, the handler
  checks in this order and answers the first check that fails, whatever the later
  checks would say: a declared size of 0 is rejected with the empty-file message; a
  declared size above \<open>100 * 1024 * 1024\<close> with the file-too-large message; a file
  name that \<open>isAllowedFileType\<close> refuses with the file-type message. Each rejection
  has status 400 and an error envelope. A request that passes all three is not
  rejected: its status is 200 or 500, by the outcome of the upload.
\<close>

theorem HandleUpload_validation_order:
  assumes "Method r = ''POST''" and "ParseMultipartForm r = None"
    and "FormFile r ''file'' = Some (file, header)"
  shows "(header_Size header = 0 \<longrightarrow>
            rejects_with (HandleUpload L h NewRecorder r b) ''Empty file not allowed'' 400) \<and>
         (header_Size header \<noteq> 0 \<and> 100 * 1024 * 1024 < sint (header_Size header) \<longrightarrow>
            rejects_with (HandleUpload L h NewRecorder r b) ''File too large (max 100MB)'' 400) \<and>
         (header_Size header \<noteq> 0 \<and> sint (header_Size header) \<le> 100 * 1024 * 1024 \<and>
          \<not> isAllowedFileType L (Filename header) \<longrightarrow>
            rejects_with (HandleUpload L h NewRecorder r b) ''File type not allowed'' 400) \<and>
         (header_Size header \<noteq> 0 \<and> sint (header_Size header) \<le> 100 * 1024 * 1024 \<and>
          isAllowedFileType L (Filename header) \<longrightarrow>
            Code (fst (HandleUpload L h NewRecorder r b)) \<in> {Some 200, Some 500})"
  using assms
  by (simp add: rejects_with_def Code_eq Body_eq split: option.split)

theorem HandleUpload_validation_order_witness:
  "rejects_with (HandleUpload (\<lambda>s. s) (MockStorageClient False) NewRecorder
       (post_file ''malware.exe'' 0 hello_world) 0) ''Empty file not allowed'' 400 \<and>
   rejects_with (HandleUpload (\<lambda>s. s) (MockStorageClient False) NewRecorder
       (post_file ''malware.exe'' 104857601 hello_world) 0) ''File too large (max 100MB)'' 400 \<and>
   rejects_with (HandleUpload (\<lambda>s. s) (MockStorageClient False) NewRecorder
       (post_file ''malware.exe'' 104857600 hello_world) 0) ''File type not allowed'' 400 \<and>
   Code (fst (HandleUpload (\<lambda>s. s) (MockStorageClient False) NewRecorder
       (post_file ''test.txt'' 104857600 hello_world) 0)) \<in> {Some 200, Some 500}"
proof -
  have big: "(100 * 1024 * 1024 :: int) < sint (104857601 :: int64)" by simp
  have max: "sint (104857600 :: int64) \<le> (100 * 1024 * 1024 :: int)" "(104857600 :: int64) \<noteq> 0"
    "(104857601 :: int64) \<noteq> 0"
    by simp_all
  note t = HandleUpload_validation_order [OF post_file_simps, where L = "\<lambda>s. s"
      and h = "MockStorageClient False" and b = 0]
  show ?thesis
    using not_allowed_malware_exe allowed_test_txt big max
      t [of "''malware.exe''" 0 hello_world]
      t [of "''malware.exe''" 104857601 hello_world]
      t [of "''malware.exe''" 104857600 hello_world]
      t [of "''test.txt''" 104857600 hello_world]
    by simp
qed

text \<open>
  Claim C9. An \<open>OPTIONS\<close> request is answered with status 200, an empty body and
  exactly the three CORS headers. A request whose method is neither \<open>POST\<close> nor
  \<open>OPTIONS\<close> is answered with status 405 and one error envelope, whose error field is
  the message \<open>Method not allowed\<close>. In both cases the backend is left as it was.
\<close>

theorem HandleUpload_methods:
  "(Method r = ''OPTIONS'' \<longrightarrow>
      HandleUpload L h NewRecorder r b =
        (\<lparr>Header = [''Access-Control-Allow-Origin'' \<mapsto> ''*'',
                    ''Access-Control-Allow-Methods'' \<mapsto> ''POST, OPTIONS'',
                    ''Access-Control-Allow-Headers'' \<mapsto> ''Content-Type''],
          Code = Some 200, Body = []\<rparr>, b)) \<and>
   (Method r \<noteq> ''POST'' \<and> Method r \<noteq> ''OPTIONS'' \<longrightarrow>
      rejects_with (HandleUpload L h NewRecorder r b) ''Method not allowed'' 405 \<and>
      snd (HandleUpload L h NewRecorder r b) = b)"
  by (simp add: handler_defs rejects_with_def)

theorem HandleUpload_methods_witness:
  "HandleUpload (\<lambda>s. s) (MockStorageClient False) NewRecorder (bare_request ''OPTIONS'') 0 =
     (\<lparr>Header = [''Access-Control-Allow-Origin'' \<mapsto> ''*'',
                 ''Access-Control-Allow-Methods'' \<mapsto> ''POST, OPTIONS'',
                 ''Access-Control-Allow-Headers'' \<mapsto> ''Content-Type''],
       Code = Some 200, Body = []\<rparr>, 0) \<and>
   rejects_with (HandleUpload (\<lambda>s. s) (MockStorageClient False) NewRecorder (bare_request ''GET'') 0)
     ''Method not allowed'' 405 \<and>
   rejects_with (HandleUpload (\<lambda>s. s) (MockStorageClient False) NewRecorder
     (bare_request ''options'') 0) ''Method not allowed'' 405"
  using HandleUpload_methods [of "bare_request ''OPTIONS''" "\<lambda>s. s" "MockStorageClient False" 0]
    HandleUpload_methods [of "bare_request ''GET''" "\<lambda>s. s" "MockStorageClient False" 0]
    HandleUpload_methods [of "bare_request ''options''" "\<lambda>s. s" "MockStorageClient False" 0]
  by (simp add: bare_request_simps)

text \<open>
  Claim C8. When the request is a POST whose form parses, has a field \<open>file\<close> and
  passes the three checks, the handler leaves the backend in the state that one call
  of \<open>storageClient.UploadFile\<close>, with the file name and the file of the request, makes
  of the state it found, and the status and the envelope are those of the results of
  that call. When the method is not POST, the form does not parse, the field is
  missing or a check fails, the backend is left as it was, and the whole result is the
  same for every storage client. The backend is never left in another state than
  these two, and a response with status 400 or 405 leaves it as it was.
\<close>

theorem HandleUpload_backend_calls:
  "(Method r = ''POST'' \<and> ParseMultipartForm r = None \<and>
    FormFile r ''file'' = Some (file, header) \<and>
    header_Size header \<noteq> 0 \<and> sint (header_Size header) \<le> 100 * 1024 * 1024 \<and>
    isAllowedFileType L (Filename header) \<longrightarrow>
      snd (HandleUpload L h w r b) = snd (storageClient h (Filename header) file b) \<and>
      Code (fst (HandleUpload L h NewRecorder r b)) =
        (case snd (fst (storageClient h (Filename header) file b)) of
           Some err \<Rightarrow> Some 500 | None \<Rightarrow> Some 200) \<and>
      Body (fst (HandleUpload L h NewRecorder r b)) =
        (case snd (fst (storageClient h (Filename header) file b)) of
           Some err \<Rightarrow> [\<lparr>Success = False, Data = None, Error = ''Upload failed: '' @ err\<rparr>]
         | None \<Rightarrow>
             [\<lparr>Success = True, Data = fst (fst (storageClient h (Filename header) file b)),
               Error = []\<rparr>])) \<and>
   (Method r \<noteq> ''POST'' \<or> ParseMultipartForm r \<noteq> None \<or> FormFile r ''file'' = None \<or>
    (\<exists>file header. FormFile r ''file'' = Some (file, header) \<and>
       (header_Size header = 0 \<or> 100 * 1024 * 1024 < sint (header_Size header) \<or>
        \<not> isAllowedFileType L (Filename header))) \<longrightarrow>
      snd (HandleUpload L h w r b) = b \<and>
      (\<forall>h'. HandleUpload L h' w r b = HandleUpload L h w r b)) \<and>
   (snd (HandleUpload L h w r b) = b \<or>
    (\<exists>file header. FormFile r ''file'' = Some (file, header) \<and>
       snd (HandleUpload L h w r b) = snd (storageClient h (Filename header) file b))) \<and>
   (Code (fst (HandleUpload L h NewRecorder r b)) \<in> {Some 400, Some 405} \<longrightarrow>
      snd (HandleUpload L h NewRecorder r b) = b)"
proof (intro conjI impI allI)
  assume pass: "Method r = ''POST'' \<and> ParseMultipartForm r = None \<and>
    FormFile r ''file'' = Some (file, header) \<and>
    header_Size header \<noteq> 0 \<and> sint (header_Size header) \<le> 100 * 1024 * 1024 \<and>
    isAllowedFileType L (Filename header)"
  then show "snd (HandleUpload L h w r b) = snd (storageClient h (Filename header) file b)"
    by (simp add: backend_eq)
  from pass show "Code (fst (HandleUpload L h NewRecorder r b)) =
        (case snd (fst (storageClient h (Filename header) file b)) of
           Some err \<Rightarrow> Some 500 | None \<Rightarrow> Some 200)"
    by (simp add: Code_eq)
  from pass show "Body (fst (HandleUpload L h NewRecorder r b)) =
        (case snd (fst (storageClient h (Filename header) file b)) of
           Some err \<Rightarrow> [\<lparr>Success = False, Data = None, Error = ''Upload failed: '' @ err\<rparr>]
         | None \<Rightarrow>
             [\<lparr>Success = True, Data = fst (fst (storageClient h (Filename header) file b)),
               Error = []\<rparr>])"
    by (simp add: Body_eq)
next
  assume rej: "Method r \<noteq> ''POST'' \<or> ParseMultipartForm r \<noteq> None \<or> FormFile r ''file'' = None \<or>
    (\<exists>file header. FormFile r ''file'' = Some (file, header) \<and>
       (header_Size header = 0 \<or> 100 * 1024 * 1024 < sint (header_Size header) \<or>
        \<not> isAllowedFileType L (Filename header)))"
  then show "snd (HandleUpload L h w r b) = b"
    unfolding backend_eq by (elim disjE exE conjE) (auto split: option.split)
  show "HandleUpload L h' w r b = HandleUpload L h w r b" for h'
    using rej by (rule rejected_any_client)
next
  show "snd (HandleUpload L h w r b) = b \<or>
    (\<exists>file header. FormFile r ''file'' = Some (file, header) \<and>
       snd (HandleUpload L h w r b) = snd (storageClient h (Filename header) file b))"
    unfolding backend_eq by (auto split: option.split)
next
  assume "Code (fst (HandleUpload L h NewRecorder r b)) \<in> {Some 400, Some 405}"
  then show "snd (HandleUpload L h NewRecorder r b) = b"
    unfolding backend_eq Code_eq by (auto split: option.splits if_splits)
qed

theorem HandleUpload_backend_calls_witness:
  "snd (HandleUpload (\<lambda>s. s) (MockStorageClient False) NewRecorder
      (post_file ''test.txt'' 13 hello_world) 0) = 1 \<and>
   snd (HandleUpload (\<lambda>s. s) (MockStorageClient True) NewRecorder
      (post_file ''test.txt'' 13 hello_world) 7) = 8 \<and>
   Code (fst (HandleUpload (\<lambda>s. s) (MockStorageClient True) NewRecorder
      (post_file ''test.txt'' 13 hello_world) 7)) = Some 500 \<and>
   Code (fst (HandleUpload (\<lambda>s. s) (MockStorageClient False) NewRecorder
      (post_file ''malware.exe'' 13 hello_world) 0)) = Some 400 \<and>
   snd (HandleUpload (\<lambda>s. s) (MockStorageClient False) NewRecorder
      (post_file ''malware.exe'' 13 hello_world) 0) = 0 \<and>
   snd (HandleUpload (\<lambda>s. s) (MockStorageClient False) NewRecorder
      (post_file ''test.txt'' 0 hello_world) 0) = 0 \<and>
   snd (HandleUpload (\<lambda>s. s) (MockStorageClient False) NewRecorder (bare_request ''GET'') 0) = 0"
proof -
  have sz: "(13 :: int64) \<noteq> 0" "sint (13 :: int64) \<le> 100 * 1024 * 1024" by simp_all
  note pass = HandleUpload_backend_calls [where L = "\<lambda>s. s" and w = NewRecorder,
      THEN conjunct1, rule_format]
  note rejected = HandleUpload_backend_calls [where L = "\<lambda>s. s" and w = NewRecorder,
      THEN conjunct2, THEN conjunct1, rule_format, THEN conjunct1]
  have passes: "Method (post_file ''test.txt'' 13 hello_world) = ''POST'' \<and>
      ParseMultipartForm (post_file ''test.txt'' 13 hello_world) = None \<and>
      FormFile (post_file ''test.txt'' 13 hello_world) ''file'' =
        Some (hello_world, \<lparr>Filename = ''test.txt'', header_Size = 13\<rparr>) \<and>
      header_Size \<lparr>Filename = ''test.txt'', header_Size = 13\<rparr> \<noteq> 0 \<and>
      sint (header_Size \<lparr>Filename = ''test.txt'', header_Size = 13\<rparr>) \<le> 100 * 1024 * 1024 \<and>
      isAllowedFileType (\<lambda>s. s) (Filename \<lparr>Filename = ''test.txt'', header_Size = 13\<rparr>)"
    using allowed_test_txt sz by (simp add: post_file_simps)
  have a: "snd (HandleUpload (\<lambda>s. s) (MockStorageClient False) NewRecorder
      (post_file ''test.txt'' 13 hello_world) 0) = 1"
    using pass [OF passes, of "MockStorageClient False" 0] by (simp add: MockStorageClient_simps)
  have b: "snd (HandleUpload (\<lambda>s. s) (MockStorageClient True) NewRecorder
      (post_file ''test.txt'' 13 hello_world) 7) = 8 \<and>
    Code (fst (HandleUpload (\<lambda>s. s) (MockStorageClient True) NewRecorder
      (post_file ''test.txt'' 13 hello_world) 7)) = Some 500"
    using pass [OF passes, of "MockStorageClient True" 7] by (simp add: MockStorageClient_simps)
  have c: "Code (fst (HandleUpload (\<lambda>s. s) (MockStorageClient False) NewRecorder
      (post_file ''malware.exe'' 13 hello_world) 0)) = Some 400"
    using not_allowed_malware_exe sz by (simp add: Code_eq post_file_simps)
  have d: "snd (HandleUpload (\<lambda>s. s) (MockStorageClient False) NewRecorder
      (post_file ''malware.exe'' 13 hello_world) 0) = 0"
    by (rule rejected) (simp add: post_file_simps not_allowed_malware_exe)
  have e: "snd (HandleUpload (\<lambda>s. s) (MockStorageClient False) NewRecorder
      (post_file ''test.txt'' 0 hello_world) 0) = 0"
    by (rule rejected) (simp add: post_file_simps)
  have f: "snd (HandleUpload (\<lambda>s. s) (MockStorageClient False) NewRecorder
      (bare_request ''GET'') 0) = 0"
    by (rule rejected) (simp add: bare_request_simps)
  from a b c d e f show ?thesis by blast
qed

text \<open>
  Claim C10. A declared size below zero passes the empty-file check and the size limit:
  with an allowed file name the backend is left in the state that one call of
  \<open>storageClient.UploadFile\<close> makes, and the status is that of the upload (200 or 500),
  never 400.
\<close>

theorem HandleUpload_negative_size:
  assumes "Method r = ''POST''" and "ParseMultipartForm r = None"
    and "FormFile r ''file'' = Some (file, header)"
    and "sint (header_Size header) < 0"
    and "isAllowedFileType L (Filename header)"
  shows "snd (HandleUpload L h NewRecorder r b) = snd (storageClient h (Filename header) file b) \<and>
         Code (fst (HandleUpload L h NewRecorder r b)) =
           (case snd (fst (storageClient h (Filename header) file b)) of
              Some err \<Rightarrow> Some 500 | None \<Rightarrow> Some 200) \<and>
         Code (fst (HandleUpload L h NewRecorder r b)) \<noteq> Some 400"
proof -
  from assms(4) have nz: "header_Size header \<noteq> 0" by auto
  from assms(4) have le: "\<not> 100 * 1024 * 1024 < sint (header_Size header)" by simp
  show ?thesis
    using assms(1,2,3,5) nz le by (simp add: backend_eq Code_eq split: option.split)
qed

theorem HandleUpload_negative_size_witness:
  "sint (- 1 :: int64) < 0 \<and>
   snd (HandleUpload (\<lambda>s. s) (MockStorageClient False) NewRecorder
      (post_file ''test.txt'' (- 1) hello_world) 0) = 1 \<and>
   Code (fst (HandleUpload (\<lambda>s. s) (MockStorageClient False) NewRecorder
      (post_file ''test.txt'' (- 1) hello_world) 0)) = Some 200"
proof -
  have neg: "sint (- 1 :: int64) < 0" by simp
  show ?thesis
    using neg allowed_test_txt
      HandleUpload_negative_size [OF post_file_simps, where L = "\<lambda>s. s"
        and h = "MockStorageClient False" and b = 0, of "''test.txt''" "- 1" hello_world]
    by (simp add: MockStorageClient_simps)
qed

section \<open>Properties of the storage client\<close>

lemma sint_of_nat_small:
  "n < 2 ^ 63 \<Longrightarrow> sint (of_nat n :: int64) = int n"
  by (simp add: signed_of_nat signed_take_bit_int_eq_self)

lemma concat_chunks_read: "concat (chunks_read rd) = stream_bytes rd"
  by (induction rd) (auto split: option.split)

lemma copy_write_ok:
  "copy_write wr ws buf = ((nw, None), ws1) \<Longrightarrow> wr ws buf = ((nw, None), ws1)"
  by (auto simp: copy_write_def split: prod.splits if_splits option.splits)

text \<open>
  When \<open>io.Copy\<close> returns no error, it has called \<open>Write\<close> on every chunk in turn,
  each call has taken its chunk whole, and the count is the number of bytes of these
  chunks.
\<close>

lemma io_Copy_success:
  "io_Copy wr ws rd written = ((n, None), ws') \<Longrightarrow>
     n = written + of_nat (length (concat (chunks_read rd))) \<and>
     all_written wr ws (chunks_read rd) \<and> ws' = after_writes wr ws (chunks_read rd)"
proof (induction rd arbitrary: ws written)
  case Nil
  then show ?case by simp
next
  case (Cons a rd)
  obtain buf er where a: "a = (buf, er)" by (cases a)
  show ?case
  proof (cases "0 < length buf")
    case False
    show ?thesis
    proof (cases "read_result er")
      case None
      then have er: "er = None"
        by (auto simp: read_result_def split: option.splits read_error.splits)
      from Cons.prems a False None have "io_Copy wr ws rd written = ((n, None), ws')"
        by simp
      from Cons.IH [OF this] show ?thesis
        using False by (simp add: a er)
    next
      case (Some err)
      then have er: "er \<noteq> None"
        by (cases er) (auto simp: read_result_def)
      from Cons.prems a False Some have "n = written" "ws' = ws" by simp_all
      with er False show ?thesis by (auto simp: a)
    qed
  next
    case True
    obtain nw ew ws1 where cw: "copy_write wr ws buf = ((nw, ew), ws1)"
      by (metis prod.exhaust)
    with Cons.prems a True have ew: "ew = None" and nw: "nw = int (length buf)"
      by (auto simp: Let_def split: option.splits if_splits)
    from cw ew nw have wr: "wr ws buf = ((int (length buf), None), ws1)"
      using copy_write_ok [of wr ws buf "int (length buf)" ws1] by simp
    show ?thesis
    proof (cases "read_result er")
      case None
      then have er: "er = None"
        by (auto simp: read_result_def split: option.splits read_error.splits)
      from Cons.prems a True cw ew nw None
      have "io_Copy wr ws1 rd (written + of_nat (length buf)) = ((n, None), ws')"
        by (simp add: Let_def)
      from Cons.IH [OF this] show ?thesis
        using True wr by (simp add: a er)
    next
      case (Some err)
      then have er: "er \<noteq> None"
        by (cases er) (auto simp: read_result_def)
      from Cons.prems a True cw ew nw Some
      have "n = written + of_nat (length buf)" "ws' = ws1" by (auto simp: Let_def)
      with er True wr show ?thesis by (auto simp: a)
    qed
  qed
qed

lemma UploadFile_cases:
  "(\<exists>e. fst (UploadFile c now f rd) = (None, Some (''failed to upload file: '' @ e))) \<or>
   (\<exists>res. fst (UploadFile c now f rd) = (Some res, None))"
  by (simp add: UploadFile_def Let_def split: prod.split option.split)

lemma UploadFile_success:
  assumes "fst (UploadFile c now f rd) = (Some res, None)"
  shows "FileName res = Format now @ ''-'' @ f"
    and "URL res = ''https://storage.googleapis.com/'' @ bucketName c @ ''/'' @ FileName res"
    and "Size res = of_nat (length (stream_bytes rd))"
    and "all_written (Write (client c)) (NewWriter (client c) (bucketName c) (FileName res))
           (chunks_read rd)"
    and "snd (UploadFile c now f rd) =
           Close (client c)
             (after_writes (Write (client c)) (NewWriter (client c) (bucketName c) (FileName res))
                (chunks_read rd))"
proof -
  obtain sz err ws' where io:
    "io_Copy (Write (client c)) (NewWriter (client c) (bucketName c) (Format now @ ''-'' @ f)) rd 0
       = ((sz, err), ws')"
    by (metis prod.exhaust)
  with assms have err: "err = None"
    and res: "res = \<lparr>FileName = Format now @ ''-'' @ f,
        URL = ''https://storage.googleapis.com/'' @ bucketName c @ ''/'' @ Format now @ ''-'' @ f,
        Size = sz\<rparr>"
    by (auto simp: UploadFile_def Let_def split: option.splits)
  from res show key: "FileName res = Format now @ ''-'' @ f" by simp
  from res show "URL res = ''https://storage.googleapis.com/'' @ bucketName c @ ''/'' @ FileName res"
    by simp
  from io err have copied:
    "sz = 0 + of_nat (length (concat (chunks_read rd))) \<and>
     all_written (Write (client c)) (NewWriter (client c) (bucketName c) (Format now @ ''-'' @ f))
       (chunks_read rd) \<and>
     ws' = after_writes (Write (client c))
       (NewWriter (client c) (bucketName c) (Format now @ ''-'' @ f)) (chunks_read rd)"
    by (intro io_Copy_success) simp
  with res show "Size res = of_nat (length (stream_bytes rd))"
    by (simp add: concat_chunks_read)
  from copied key show "all_written (Write (client c))
      (NewWriter (client c) (bucketName c) (FileName res)) (chunks_read rd)"
    by simp
  from io err copied key show "snd (UploadFile c now f rd) =
      Close (client c)
        (after_writes (Write (client c)) (NewWriter (client c) (bucketName c) (FileName res))
           (chunks_read rd))"
    by (simp add: UploadFile_def Let_def)
qed

lemma upload_document_pdf:
  "UploadFile docs clock_184900 ''document.pdf'' hello_world =
     ((Some \<lparr>FileName = ''20261101-184900-document.pdf'',
         URL = ''https://storage.googleapis.com/docs/20261101-184900-document.pdf'',
         Size = 13\<rparr>, None),
      (None, [72, 101, 108, 108, 111, 44, 32, 87, 111, 114, 108, 100, 33]))"
  by code_simp

lemma allowed_document_pdf: "isAllowedFileType (\<lambda>s. s) ''document.pdf''"
  by code_simp

lemma storageClient_NewUploadHandler:
  "storageClient (NewUploadHandler c now) f rd closed =
     (fst (UploadFile c now f rd), closed @ [snd (UploadFile c now f rd)])"
  by (simp add: NewUploadHandler_def split: prod.split)

lemma length_hello_world: "length (stream_bytes hello_world) = 13"
  by (simp add: hello_world_def)

lemma chunks_hello_world:
  "chunks_read hello_world = [[72, 101, 108, 108, 111, 44, 32], [87, 111, 114, 108, 100, 33]]"
  by (simp add: hello_world_def)

lemma handle_document_pdf:
  "Body (fst (HandleUpload (\<lambda>s. s) (NewUploadHandler docs clock_184900) NewRecorder
      (post_file ''document.pdf'' 5 hello_world) [])) =
     [\<lparr>Success = True,
       Data = Some \<lparr>FileName = ''20261101-184900-document.pdf'',
         URL = ''https://storage.googleapis.com/docs/20261101-184900-document.pdf'',
         Size = 13\<rparr>,
       Error = []\<rparr>]"
  "Code (fst (HandleUpload (\<lambda>s. s) (NewUploadHandler docs clock_184900) NewRecorder
      (post_file ''document.pdf'' 5 hello_world) [])) = Some 200"
  "snd (HandleUpload (\<lambda>s. s) (NewUploadHandler docs clock_184900) NewRecorder
      (post_file ''document.pdf'' 5 hello_world) []) =
     [(None, [72, 101, 108, 108, 111, 44, 32, 87, 111, 114, 108, 100, 33])]"
  using allowed_document_pdf
  by (simp_all add: Body_eq Code_eq backend_eq post_file_simps storageClient_NewUploadHandler
      upload_document_pdf)


text \<open>
  Claim C5. When \<open>UploadFile\<close> succeeds, the size in its result is the number of
  bytes of the input stream (as an \<open>int64\<close>, and as a number when the stream is shorter
  than \<open>2 ^ 63\<close> bytes), and these are the bytes copied to the writer: \<open>Write\<close> was
  called on the chunks of the stream in turn, from the writer that \<open>NewWriter\<close> made for
  the object, each call took its chunk whole, and the writer that was closed is the one
  these calls left. So a success envelope of the handler carries the length of the
  stream of the uploaded file, and the storage service has received one writer with
  that stream; the size declared in the header plays no part.
\<close>

theorem UploadFile_size:
  "(fst (UploadFile c now f rd) = (Some res, None) \<longrightarrow>
      Size res = of_nat (length (stream_bytes rd)) \<and>
      (length (stream_bytes rd) < 2 ^ 63 \<longrightarrow> sint (Size res) = int (length (stream_bytes rd))) \<and>
      concat (chunks_read rd) = stream_bytes rd \<and>
      all_written (Write (client c)) (NewWriter (client c) (bucketName c) (FileName res))
        (chunks_read rd) \<and>
      snd (UploadFile c now f rd) =
        Close (client c)
          (after_writes (Write (client c)) (NewWriter (client c) (bucketName c) (FileName res))
             (chunks_read rd))) \<and>
   (env \<in> set (Body (fst (HandleUpload L (NewUploadHandler c now) NewRecorder r closed))) \<and>
    Success env \<longrightarrow>
      (\<exists>file header res. FormFile r ''file'' = Some (file, header) \<and> Data env = Some res \<and>
         Size res = of_nat (length (stream_bytes file)) \<and>
         (length (stream_bytes file) < 2 ^ 63 \<longrightarrow>
            sint (Size res) = int (length (stream_bytes file))) \<and>
         snd (HandleUpload L (NewUploadHandler c now) NewRecorder r closed) =
           closed @
           [Close (client c)
              (after_writes (Write (client c))
                 (NewWriter (client c) (bucketName c) (FileName res)) (chunks_read file))]))"
proof (intro conjI impI)
  assume ok: "fst (UploadFile c now f rd) = (Some res, None)"
  then show "Size res = of_nat (length (stream_bytes rd))"
    by (rule UploadFile_success(3))
  then show "sint (Size res) = int (length (stream_bytes rd))"
    if "length (stream_bytes rd) < 2 ^ 63"
    using that by (simp add: sint_of_nat_small)
  show "concat (chunks_read rd) = stream_bytes rd"
    by (rule concat_chunks_read)
  from ok show "all_written (Write (client c))
      (NewWriter (client c) (bucketName c) (FileName res)) (chunks_read rd)"
    by (rule UploadFile_success(4))
  from ok show "snd (UploadFile c now f rd) =
      Close (client c)
        (after_writes (Write (client c)) (NewWriter (client c) (bucketName c) (FileName res))
           (chunks_read rd))"
    by (rule UploadFile_success(5))
next
  assume env: "env \<in> set (Body (fst (HandleUpload L (NewUploadHandler c now) NewRecorder r closed))) \<and>
    Success env"
  then obtain fl hdr where ff: "FormFile r ''file'' = Some (fl, hdr)"
    and post: "Method r = ''POST''" "ParseMultipartForm r = None"
    and pass: "header_Size hdr \<noteq> 0" "\<not> 100 * 1024 * 1024 < sint (header_Size hdr)"
      "isAllowedFileType L (Filename hdr)"
    and data: "Data env = fst (fst (UploadFile c now (Filename hdr) fl))"
    and none: "snd (fst (UploadFile c now (Filename hdr) fl)) = None"
    by (auto simp: Body_eq storageClient_NewUploadHandler split: if_splits option.splits)
  from none UploadFile_cases [of c now "Filename hdr" fl]
  obtain res where res: "fst (UploadFile c now (Filename hdr) fl) = (Some res, None)"
    by auto
  from UploadFile_success(3) [OF res] have sz: "Size res = of_nat (length (stream_bytes fl))" .
  from post ff pass
  have "snd (HandleUpload L (NewUploadHandler c now) NewRecorder r closed) =
      closed @ [snd (UploadFile c now (Filename hdr) fl)]"
    by (simp add: backend_eq storageClient_NewUploadHandler)
  with UploadFile_success(5) [OF res]
  have st: "snd (HandleUpload L (NewUploadHandler c now) NewRecorder r closed) =
      closed @
      [Close (client c)
         (after_writes (Write (client c))
            (NewWriter (client c) (bucketName c) (FileName res)) (chunks_read fl))]"
    by simp
  from ff data res sz st sint_of_nat_small [of "length (stream_bytes fl)"]
  show "\<exists>file header res. FormFile r ''file'' = Some (file, header) \<and> Data env = Some res \<and>
         Size res = of_nat (length (stream_bytes file)) \<and>
         (length (stream_bytes file) < 2 ^ 63 \<longrightarrow>
            sint (Size res) = int (length (stream_bytes file))) \<and>
         snd (HandleUpload L (NewUploadHandler c now) NewRecorder r closed) =
           closed @
           [Close (client c)
              (after_writes (Write (client c))
                 (NewWriter (client c) (bucketName c) (FileName res)) (chunks_read file))]"
    by auto
qed

theorem UploadFile_size_witness:
  "UploadFile docs clock_184900 ''document.pdf'' hello_world =
     ((Some \<lparr>FileName = ''20261101-184900-document.pdf'',
         URL = ''https://storage.googleapis.com/docs/20261101-184900-document.pdf'',
         Size = 13\<rparr>, None),
      (None, [72, 101, 108, 108, 111, 44, 32, 87, 111, 114, 108, 100, 33])) \<and>
   length (stream_bytes hello_world) = 13 \<and>
   sint (13 :: int64) = int (length (stream_bytes hello_world)) \<and>
   all_written (Write (client docs))
     (NewWriter (client docs) (bucketName docs) ''20261101-184900-document.pdf'')
     (chunks_read hello_world) \<and>
   Body (fst (HandleUpload (\<lambda>s. s) (NewUploadHandler docs clock_184900) NewRecorder
      (post_file ''document.pdf'' 5 hello_world) [])) =
     [\<lparr>Success = True,
       Data = Some \<lparr>FileName = ''20261101-184900-document.pdf'',
         URL = ''https://storage.googleapis.com/docs/20261101-184900-document.pdf'',
         Size = 13\<rparr>,
       Error = []\<rparr>] \<and>
   snd (HandleUpload (\<lambda>s. s) (NewUploadHandler docs clock_184900) NewRecorder
      (post_file ''document.pdf'' 5 hello_world) []) =
     [(None, [72, 101, 108, 108, 111, 44, 32, 87, 111, 114, 108, 100, 33])]"
proof -
  have ok: "fst (UploadFile docs clock_184900 ''document.pdf'' hello_world) =
     (Some \<lparr>FileName = ''20261101-184900-document.pdf'',
         URL = ''https://storage.googleapis.com/docs/20261101-184900-document.pdf'',
         Size = 13\<rparr>, None)"
    by (simp add: upload_document_pdf)
  note t = UploadFile_size [THEN conjunct1, rule_format, OF ok]
  from t have "sint (Size \<lparr>FileName = ''20261101-184900-document.pdf'',
         URL = ''https://storage.googleapis.com/docs/20261101-184900-document.pdf'',
         Size = 13 :: int64\<rparr>) = int (length (stream_bytes hello_world))"
    by (simp add: length_hello_world)
  moreover from t have "all_written (Write (client docs))
     (NewWriter (client docs) (bucketName docs) ''20261101-184900-document.pdf'')
     (chunks_read hello_world)"
    by simp
  ultimately show ?thesis
    by (simp add: handle_document_pdf upload_document_pdf length_hello_world)
qed

lemma Body_forms:
  "Body (fst (HandleUpload L (NewUploadHandler c now) NewRecorder r closed)) = [] \<or>
   (\<exists>m. m \<noteq> [] \<and> Body (fst (HandleUpload L (NewUploadHandler c now) NewRecorder r closed)) =
      [\<lparr>Success = False, Data = None, Error = m\<rparr>]) \<or>
   (\<exists>res. Body (fst (HandleUpload L (NewUploadHandler c now) NewRecorder r closed)) =
      [\<lparr>Success = True, Data = Some res, Error = []\<rparr>])"
proof (cases "Method r = ''POST'' \<and> ParseMultipartForm r = None \<and> FormFile r ''file'' \<noteq> None")
  case False
  then show ?thesis
    by (auto simp: Body_eq split: option.splits)
next
  case True
  then obtain fl hdr where ff: "FormFile r ''file'' = Some (fl, hdr)" by auto
  show ?thesis
  proof (cases "header_Size hdr = 0 \<or> 100 * 1024 * 1024 < sint (header_Size hdr) \<or>
      \<not> isAllowedFileType L (Filename hdr)")
    case rejected: True
    with True ff show ?thesis
      by (auto simp: Body_eq)
  next
    case False
    from UploadFile_cases [of c now "Filename hdr" fl] show ?thesis
    proof (elim disjE exE)
      fix e
      assume "fst (UploadFile c now (Filename hdr) fl) = (None, Some (''failed to upload file: '' @ e))"
      with True ff False show ?thesis
        by (simp add: Body_eq storageClient_NewUploadHandler)
    next
      fix res
      assume "fst (UploadFile c now (Filename hdr) fl) = (Some res, None)"
      with True ff False show ?thesis
        by (simp add: Body_eq storageClient_NewUploadHandler)
    qed
  qed
qed

text \<open>
  Claim C6. Every envelope that the handler of \<open>main\<close> writes has \<open>success\<close> true
  exactly when \<open>data\<close> is set and \<open>error\<close> is empty, and false exactly when
  \<open>error\<close> is not empty and \<open>data\<close> is not set.
\<close>

theorem HandleUpload_envelope:
  "\<forall>env \<in> set (Body (fst (HandleUpload L (NewUploadHandler c now) NewRecorder r closed))).
      (Success env \<longleftrightarrow> Data env \<noteq> None \<and> Error env = []) \<and>
      (\<not> Success env \<longleftrightarrow> Error env \<noteq> [] \<and> Data env = None)"
  using Body_forms [of L c now r closed] by (elim disjE exE conjE) simp_all

theorem HandleUpload_envelope_witness:
  "Body (fst (HandleUpload (\<lambda>s. s) (NewUploadHandler docs clock_184900) NewRecorder
      (post_file ''document.pdf'' 5 hello_world) [])) =
     [\<lparr>Success = True,
       Data = Some \<lparr>FileName = ''20261101-184900-document.pdf'',
         URL = ''https://storage.googleapis.com/docs/20261101-184900-document.pdf'',
         Size = 13\<rparr>,
       Error = []\<rparr>] \<and>
   Body (fst (HandleUpload (\<lambda>s. s) (NewUploadHandler docs clock_184900) NewRecorder
      (post_file ''malware.exe'' 5 hello_world) [])) =
     [\<lparr>Success = False, Data = None, Error = ''File type not allowed''\<rparr>]"
proof -
  have sz: "(5 :: int64) \<noteq> 0" "\<not> 100 * 1024 * 1024 < sint (5 :: int64)" by simp_all
  have rej: "Body (fst (HandleUpload (\<lambda>s. s) (NewUploadHandler docs clock_184900) NewRecorder
      (post_file ''malware.exe'' 5 hello_world) [])) =
     [\<lparr>Success = False, Data = None, Error = ''File type not allowed''\<rparr>]"
    using not_allowed_malware_exe sz by (simp add: Body_eq post_file_simps)
  show ?thesis
    using HandleUpload_envelope [of "\<lambda>s. s" docs clock_184900
        "post_file ''document.pdf'' 5 hello_world" "[]"] handle_document_pdf(1) rej
    by blast
qed

lemma decimal_lt10: "u < 10 \<Longrightarrow> decimal u = [utod u]"
  by (subst decimal.simps) simp

lemma decimal_ge10: "10 \<le> u \<Longrightarrow> decimal u = decimal (u div 10) @ [utod (u mod 10)]"
  by (subst decimal.simps) simp

lemma decimal_lt100: "10 \<le> u \<Longrightarrow> u < 100 \<Longrightarrow> decimal u = two_digits u"
  by (simp add: decimal_ge10 decimal_lt10 two_digits_def)

lemma div10_twice: "(u::nat) div 10 div 10 = u div 100"
  by (simp add: div_mult2_eq [symmetric])

lemma div10_thrice: "(u::nat) div 10 div 100 = u div 1000"
  by (simp add: div_mult2_eq [symmetric])

lemma decimal_lt1000:
  "100 \<le> u \<Longrightarrow> u < 1000 \<Longrightarrow>
     decimal u = [utod (u div 100), utod (u div 10 mod 10), utod (u mod 10)]"
  by (simp add: decimal_ge10 [of u] decimal_lt100 two_digits_def div10_twice)

lemma decimal_lt10000:
  "1000 \<le> u \<Longrightarrow> u < 10000 \<Longrightarrow> decimal u = four_digits u"
  by (simp add: decimal_ge10 [of u] decimal_lt1000 four_digits_def div10_twice div10_thrice)

lemma utod_0: "utod 0 = CHR ''0''"
  by code_simp

lemma appendInt_nonneg:
  "0 \<le> x \<Longrightarrow>
     appendInt x w = replicate (w - length (decimal (nat x))) (CHR ''0'') @ decimal (nat x)"
  by (simp add: appendInt_def Let_def)

lemma replicate_small:
  "replicate (Suc 0) c = [c]" "replicate 2 c = [c, c]" "replicate 3 c = [c, c, c]"
  by (simp_all add: numeral_2_eq_2 numeral_3_eq_3)

lemma appendInt_2: "0 \<le> x \<Longrightarrow> x < 100 \<Longrightarrow> appendInt x 2 = two_digits (nat x)"
proof -
  assume x: "0 \<le> x" "x < 100"
  show ?thesis
  proof (cases "nat x < 10")
    case True
    then have "decimal (nat x) = [utod (nat x)]" by (rule decimal_lt10)
    with x True show ?thesis
      by (simp add: appendInt_nonneg two_digits_def utod_0 replicate_small)
  next
    case False
    with x have "decimal (nat x) = two_digits (nat x)" by (intro decimal_lt100) auto
    with x show ?thesis
      by (simp add: appendInt_nonneg two_digits_def)
  qed
qed

lemma appendInt_4: "0 \<le> x \<Longrightarrow> x < 10000 \<Longrightarrow> appendInt x 4 = four_digits (nat x)"
proof -
  assume x: "0 \<le> x" "x < 10000"
  consider "nat x < 10" | "10 \<le> nat x" "nat x < 100" | "100 \<le> nat x" "nat x < 1000"
    | "1000 \<le> nat x" "nat x < 10000"
    using x by linarith
  then show ?thesis
  proof cases
    case 1
    then have "decimal (nat x) = [utod (nat x)]" by (rule decimal_lt10)
    with x 1 show ?thesis
      by (simp add: appendInt_nonneg four_digits_def utod_0 replicate_small)
  next
    case 2
    then have "decimal (nat x) = two_digits (nat x)" by (intro decimal_lt100)
    with x 2 show ?thesis
      by (simp add: appendInt_nonneg four_digits_def two_digits_def utod_0 replicate_small)
  next
    case 3
    then have "decimal (nat x) =
        [utod (nat x div 100), utod (nat x div 10 mod 10), utod (nat x mod 10)]"
      by (intro decimal_lt1000)
    with x 3 show ?thesis
      by (simp add: appendInt_nonneg four_digits_def utod_0 replicate_small)
  next
    case 4
    then have "decimal (nat x) = four_digits (nat x)" by (intro decimal_lt10000)
    with x show ?thesis
      by (simp add: appendInt_nonneg four_digits_def)
  qed
qed

lemma Format_shape:
  "valid_clock t \<Longrightarrow> 0 \<le> Year t \<Longrightarrow> Year t \<le> 9999 \<Longrightarrow> Format t = YYYYMMDD_HHMMSS t"
  by (simp add: Format_def YYYYMMDD_HHMMSS_def valid_clock_def appendInt_2 appendInt_4)

lemma digit_of_utod: "v < 10 \<Longrightarrow> (of_char (utod v) :: nat) - of_char (CHR ''0'') = v"
  by (simp add: utod_def)

lemma digits_value_snoc:
  "digits_value (s @ [c]) = 10 * digits_value s + ((of_char c :: nat) - of_char (CHR ''0''))"
  by (simp add: digits_value_def)

lemma digits_value_decimal: "digits_value (decimal u) = u"
proof (induction u rule: decimal.induct)
  case (1 u)
  show ?case
  proof (cases "u < 10")
    case True
    then show ?thesis
      using digit_of_utod [of u] by (simp add: decimal_lt10 digits_value_def)
  next
    case False
    then have "digits_value (decimal (u div 10)) = u div 10" by (rule "1.IH")
    with False show ?thesis
      using digit_of_utod [of "u mod 10"]
      by (simp add: decimal_ge10 digits_value_snoc del: of_char_Char)
  qed
qed

lemma foldl_zeros:
  "foldl (\<lambda>a c. 10 * a + ((of_char c :: nat) - of_char (CHR ''0''))) 0 (replicate k (CHR ''0'')) = 0"
  by (induction k) simp_all

lemma digits_value_padded: "digits_value (replicate k (CHR ''0'') @ decimal u) = u"
  using digits_value_decimal [of u] unfolding digits_value_def foldl_append foldl_zeros .

lemma utod_not_minus: "v < 10 \<Longrightarrow> utod v \<noteq> CHR ''-''"
proof
  assume v: "v < 10" and "utod v = CHR ''-''"
  then have "(of_char (utod v) :: nat) = of_char (CHR ''-'')" by simp
  with v show False by (simp add: utod_def)
qed

lemma decimal_not_Nil: "decimal u \<noteq> []"
  by (subst decimal.simps) simp

lemma hd_decimal_not_minus: "hd (decimal u) \<noteq> CHR ''-''"
proof (induction u rule: decimal.induct)
  case (1 u)
  show ?case
  proof (cases "u < 10")
    case True
    then show ?thesis by (simp add: decimal_lt10 utod_not_minus)
  next
    case False
    with "1.IH" show ?thesis
      by (simp add: decimal_ge10 decimal_not_Nil)
  qed
qed

lemma hd_padded_not_minus: "hd (replicate k (CHR ''0'') @ decimal u) \<noteq> CHR ''-''"
  by (cases k) (simp_all add: hd_decimal_not_minus)

lemma appendInt_inj: "appendInt x w = appendInt y w \<Longrightarrow> x = y"
proof -
  assume eq: "appendInt x w = appendInt y w"
  let ?p = "\<lambda>z. replicate (w - length (decimal (nat \<bar>z\<bar>))) (CHR ''0'') @ decimal (nat \<bar>z\<bar>)"
  have ap: "appendInt z w = (if z < 0 then CHR ''-'' # ?p z else ?p z)" for z
    by (simp add: appendInt_def Let_def)
  have val: "digits_value (?p z) = nat \<bar>z\<bar>" for z
    by (rule digits_value_padded)
  have hd: "hd (?p z) \<noteq> CHR ''-''" for z
    by (rule hd_padded_not_minus)
  show ?thesis
  proof (cases "x < 0")
    case xneg: True
    show ?thesis
    proof (cases "y < 0")
      case True
      with xneg eq have "?p x = ?p y" by (simp add: ap)
      then have "digits_value (?p x) = digits_value (?p y)" by simp
      then have "nat \<bar>x\<bar> = nat \<bar>y\<bar>" by (simp only: val)
      with xneg True show ?thesis by simp
    next
      case False
      with xneg eq have "CHR ''-'' # ?p x = ?p y" by (simp add: ap)
      then have "hd (?p y) = CHR ''-''" by (metis list.sel(1))
      with hd [of y] show ?thesis by simp
    qed
  next
    case xpos: False
    show ?thesis
    proof (cases "y < 0")
      case True
      with xpos eq have "?p x = CHR ''-'' # ?p y" by (simp add: ap)
      then have "hd (?p x) = CHR ''-''" by (metis list.sel(1))
      with hd [of x] show ?thesis by simp
    next
      case False
      with xpos eq have "?p x = ?p y" by (simp add: ap)
      then have "digits_value (?p x) = digits_value (?p y)" by simp
      then have "nat \<bar>x\<bar> = nat \<bar>y\<bar>" by (simp only: val)
      with xpos False show ?thesis by simp
    qed
  qed
qed

lemma length_appendInt_2: "0 \<le> x \<Longrightarrow> x < 100 \<Longrightarrow> length (appendInt x 2) = 2"
  by (simp add: appendInt_2 two_digits_def)

lemma Format_inj:
  assumes "valid_clock s" and "valid_clock t" and "Format s = Format t"
  shows "s = t"
proof -
  let ?r = "\<lambda>u. appendInt (Month u) 2 @ appendInt (Day u) 2 @ ''-'' @
     appendInt (Hour u) 2 @ appendInt (Minute u) 2 @ appendInt (Second u) 2"
  have F: "Format u = appendInt (Year u) 4 @ ?r u" for u
    by (simp add: Format_def)
  have len: "length (appendInt (Month u) 2) = 2 \<and> length (appendInt (Day u) 2) = 2 \<and>
      length (appendInt (Hour u) 2) = 2 \<and> length (appendInt (Minute u) 2) = 2 \<and>
      length (appendInt (Second u) 2) = 2" if "valid_clock u" for u
    using that by (simp add: valid_clock_def length_appendInt_2)
  from assms(3) have "appendInt (Year s) 4 @ ?r s = appendInt (Year t) 4 @ ?r t"
    by (simp only: F)
  moreover have "length (?r s) = length (?r t)"
    using len [OF assms(1)] len [OF assms(2)] by simp
  ultimately have yr: "appendInt (Year s) 4 = appendInt (Year t) 4 \<and> ?r s = ?r t"
    by (rule append_eq_append_conv [THEN iffD1, OF disjI2, rotated])
  then have y: "appendInt (Year s) 4 = appendInt (Year t) 4" and r: "?r s = ?r t"
    by blast+
  from r len [OF assms(1)] len [OF assms(2)]
  have "appendInt (Month s) 2 = appendInt (Month t) 2 \<and> appendInt (Day s) 2 = appendInt (Day t) 2 \<and>
      appendInt (Hour s) 2 = appendInt (Hour t) 2 \<and> appendInt (Minute s) 2 = appendInt (Minute t) 2 \<and>
      appendInt (Second s) 2 = appendInt (Second t) 2"
    by simp
  with y have "Year s = Year t \<and> Month s = Month t \<and> Day s = Day t \<and> Hour s = Hour t \<and>
      Minute s = Minute t \<and> Second s = Second t"
    by (blast dest: appendInt_inj)
  then show ?thesis by simp
qed

lemma valid_clocks:
  "valid_clock clock_184900" "valid_clock clock_184901" "clock_184901 \<noteq> clock_184900"
  "0 \<le> Year clock_184900" "Year clock_184900 \<le> 9999"
  by (simp_all add: valid_clock_def clock_184900_def clock_184901_def)

lemma upload_raw_name:
  "fst (UploadFile docs clock_184900 ''a/../b c?#.pdf'' hello_world) =
     (Some \<lparr>FileName = ''20261101-184900-a/../b c?#.pdf'',
        URL = ''https://storage.googleapis.com/docs/20261101-184900-a/../b c?#.pdf'',
        Size = 13\<rparr>, None)"
  "fst (UploadFile docs clock_184901 ''a/../b c?#.pdf'' hello_world) =
     (Some \<lparr>FileName = ''20261101-184901-a/../b c?#.pdf'',
        URL = ''https://storage.googleapis.com/docs/20261101-184901-a/../b c?#.pdf'',
        Size = 13\<rparr>, None)"
  by code_simp+

lemma shape_184900: "YYYYMMDD_HHMMSS clock_184900 = ''20261101-184900''"
  by code_simp

text \<open>
  Claim C4. When \<open>UploadFile\<close> succeeds, the object key is the formatted time, a
  hyphen and the file name as given. For a clock with a year from 0 to 9999 the
  formatted time is the 15 characters \<open>YYYYMMDD-HHMMSS\<close>. Two successful uploads of one
  file name at clock readings that differ in some field give different keys.
\<close>

theorem UploadFile_object_key:
  assumes "fst (UploadFile c now f rd) = (Some res, None)"
  shows "FileName res = Format now @ ''-'' @ f \<and>
         (valid_clock now \<and> 0 \<le> Year now \<and> Year now \<le> 9999 \<longrightarrow>
            FileName res = YYYYMMDD_HHMMSS now @ ''-'' @ f \<and>
            length (YYYYMMDD_HHMMSS now) = 15) \<and>
         (\<forall>c' now' rd' res'.
            valid_clock now \<and> valid_clock now' \<and> now' \<noteq> now \<and>
            fst (UploadFile c' now' f rd') = (Some res', None) \<longrightarrow>
              FileName res' \<noteq> FileName res)"
proof (intro conjI impI allI)
  show key: "FileName res = Format now @ ''-'' @ f"
    using assms by (rule UploadFile_success(1))
  show "FileName res = YYYYMMDD_HHMMSS now @ ''-'' @ f"
    if "valid_clock now \<and> 0 \<le> Year now \<and> Year now \<le> 9999"
    using that key by (simp add: Format_shape)
  show "length (YYYYMMDD_HHMMSS now) = 15"
    by (simp add: YYYYMMDD_HHMMSS_def two_digits_def four_digits_def)
  show "FileName res' \<noteq> FileName res"
    if h: "valid_clock now \<and> valid_clock now' \<and> now' \<noteq> now \<and>
      fst (UploadFile c' now' f rd') = (Some res', None)" for c' :: "'b Client" and now' rd' res'
  proof
    assume "FileName res' = FileName res"
    moreover from h have "FileName res' = Format now' @ ''-'' @ f"
      by (intro UploadFile_success(1)) auto
    ultimately have "Format now' = Format now"
      using key by simp
    with h have "now' = now" by (intro Format_inj) auto
    with h show False by simp
  qed
qed

theorem UploadFile_object_key_witness:
  "fst (UploadFile docs clock_184900 ''a/../b c?#.pdf'' hello_world) =
     (Some \<lparr>FileName = ''20261101-184900-a/../b c?#.pdf'',
        URL = ''https://storage.googleapis.com/docs/20261101-184900-a/../b c?#.pdf'',
        Size = 13\<rparr>, None) \<and>
   fst (UploadFile docs clock_184901 ''a/../b c?#.pdf'' hello_world) =
     (Some \<lparr>FileName = ''20261101-184901-a/../b c?#.pdf'',
        URL = ''https://storage.googleapis.com/docs/20261101-184901-a/../b c?#.pdf'',
        Size = 13\<rparr>, None) \<and>
   valid_clock clock_184900 \<and> valid_clock clock_184901 \<and> clock_184901 \<noteq> clock_184900 \<and>
   YYYYMMDD_HHMMSS clock_184900 @ ''-'' @ ''a/../b c?#.pdf'' = ''20261101-184900-a/../b c?#.pdf'' \<and>
   ''20261101-184901-a/../b c?#.pdf'' \<noteq> ''20261101-184900-a/../b c?#.pdf''"
proof -
  note t = UploadFile_object_key [OF upload_raw_name(1)]
  from t have "FileName \<lparr>FileName = ''20261101-184901-a/../b c?#.pdf'',
        URL = ''https://storage.googleapis.com/docs/20261101-184901-a/../b c?#.pdf'',
        Size = 13\<rparr> \<noteq> FileName \<lparr>FileName = ''20261101-184900-a/../b c?#.pdf'',
        URL = ''https://storage.googleapis.com/docs/20261101-184900-a/../b c?#.pdf'',
        Size = 13\<rparr>"
    using valid_clocks upload_raw_name(2) by blast
  then show ?thesis
    using valid_clocks upload_raw_name shape_184900 by simp
qed

text \<open>
  Claim C7. When \<open>UploadFile\<close> succeeds, the URL is \<open>https://storage.googleapis.com/\<close>,
  the bucket name, a slash and the object key, byte for byte: the key, and with it the
  file name, is not encoded.
\<close>

theorem UploadFile_public_url:
  assumes "fst (UploadFile c now f rd) = (Some res, None)"
  shows "URL res = ''https://storage.googleapis.com/'' @ bucketName c @ ''/'' @ FileName res \<and>
         URL res = ''https://storage.googleapis.com/'' @ bucketName c @ ''/'' @ Format now @ ''-'' @ f"
  using UploadFile_success(1,2) [OF assms] by simp

theorem UploadFile_public_url_witness:
  "fst (UploadFile docs clock_184901 ''a/../b c?#.pdf'' hello_world) =
     (Some \<lparr>FileName = ''20261101-184901-a/../b c?#.pdf'',
        URL = ''https://storage.googleapis.com/docs/20261101-184901-a/../b c?#.pdf'',
        Size = 13\<rparr>, None) \<and>
   ''https://storage.googleapis.com/docs/20261101-184901-a/../b c?#.pdf'' =
     ''https://storage.googleapis.com/'' @ bucketName docs @ ''/'' @ ''20261101-184901-a/../b c?#.pdf''"
  using UploadFile_public_url [OF upload_raw_name(2)] upload_raw_name(2)
  by (simp add: docs_def)

text \<open>
  An error that \<open>UploadFile\<close> does return reaches the caller: status 500 and one error
  envelope, whose message is \<open>Upload failed: \<close> and the error.
\<close>

lemma HandleUpload_upload_error:
  assumes "Method r = ''POST''" and "ParseMultipartForm r = None"
    and "FormFile r ''file'' = Some (file, header)"
    and "header_Size header \<noteq> 0" and "sint (header_Size header) \<le> 100 * 1024 * 1024"
    and "isAllowedFileType L (Filename header)"
    and "snd (fst (storageClient h (Filename header) file b)) = Some err"
  shows "rejects_with (HandleUpload L h NewRecorder r b) (''Upload failed: '' @ err) 500"
  using assms by (simp add: rejects_with_def Body_eq Code_eq)

text \<open>
  Claim C2, at an upload that the backend refuses when the writer is closed: every
  \<open>Write\<close> succeeds, so \<open>io.Copy\<close> returns no error; \<open>Close\<close> returns the error of
  the backend, which the deferred call drops. \<open>UploadFile\<close> returns a result and no
  error, and the handler answers 200 with a success envelope that carries the object
  key, the URL and the size.
\<close>

theorem UploadFile_close_error_dropped:
  "fst (snd (UploadFile forbidden_docs clock_184900 ''document.pdf'' hello_world)) =
     Some ''googleapi: Error 403: Forbidden'' \<and>
   fst (UploadFile forbidden_docs clock_184900 ''document.pdf'' hello_world) =
     (Some \<lparr>FileName = ''20261101-184900-document.pdf'',
        URL = ''https://storage.googleapis.com/docs/20261101-184900-document.pdf'',
        Size = 13\<rparr>, None) \<and>
   Code (fst (HandleUpload (\<lambda>s. s) (NewUploadHandler forbidden_docs clock_184900) NewRecorder
      (post_file ''document.pdf'' 13 hello_world) [])) = Some 200 \<and>
   Body (fst (HandleUpload (\<lambda>s. s) (NewUploadHandler forbidden_docs clock_184900) NewRecorder
      (post_file ''document.pdf'' 13 hello_world) [])) =
     [\<lparr>Success = True,
       Data = Some \<lparr>FileName = ''20261101-184900-document.pdf'',
         URL = ''https://storage.googleapis.com/docs/20261101-184900-document.pdf'',
         Size = 13\<rparr>,
       Error = []\<rparr>]"
proof -
  have up: "UploadFile forbidden_docs clock_184900 ''document.pdf'' hello_world =
     ((Some \<lparr>FileName = ''20261101-184900-document.pdf'',
         URL = ''https://storage.googleapis.com/docs/20261101-184900-document.pdf'',
         Size = 13\<rparr>, None),
      (Some ''googleapi: Error 403: Forbidden'', []))"
    by code_simp
  have sz: "(13 :: int64) \<noteq> 0" "\<not> 100 * 1024 * 1024 < sint (13 :: int64)" by simp_all
  show ?thesis
    using allowed_document_pdf sz
    by (simp add: up Body_eq Code_eq post_file_simps storageClient_NewUploadHandler)
qed

end
